theory Spec2Isabelle
  imports Complex_Main "HOL-Library.List_Lexorder" "HOL-Library.Char_ord"
begin

section \<open>Stocky: reward ingestion, fees, holdings and ledger\<close>

text \<open>
  A shallow embedding of \<^verbatim>\<open>internal/services/services.go\<close>, of the repository
  layer it calls (\<^verbatim>\<open>package repository\<close>), of the handler in front of it
  (\<^verbatim>\<open>internal/handlers/handlers.go\<close>) and of the tables of the schema
  (\<^verbatim>\<open>001_initial_schema.sql\<close>) that the repository's statements run against.

  Conventions of the model.
  \<^item> A Go \<^verbatim>\<open>float64\<close> is an exact rational (\<^typ>\<open>rat\<close>): the arithmetic of
    the source is kept operator by operator, but without the representation error of
    binary floating point and without the values \<^verbatim>\<open>\<plusminus>Inf\<close> and \<^verbatim>\<open>NaN\<close>.
    The one place where the source can divide by zero is marked where it occurs.
  \<^item> A Go \<^verbatim>\<open>int\<close> has 64 bits. The conversion \<^verbatim>\<open>int(x)\<close> of a float
    truncates towards zero; for a result outside the 64 bits Go leaves the value to the
    implementation, and the model takes the one of amd64, the smallest integer. The
    keys of the tables are integers without a bound.
  \<^item> A \<^verbatim>\<open>time.Time\<close> is an integer instant, the zero time being \<open>0\<close>.
  \<^item> A table is the list of its rows in insertion order. The store enforces the
    \<^verbatim>\<open>UNIQUE\<close> and \<^verbatim>\<open>CHECK\<close> constraints the schema declares and draws
    \<^verbatim>\<open>SERIAL\<close> keys from a counter. What the type of a column adds is left
    out: a column keeps the value written to it (a \<^verbatim>\<open>NUMERIC\<close> column would round
    it to its scale), and a text that a \<^verbatim>\<open>UUID\<close>, \<^verbatim>\<open>JSONB\<close> or
    \<^verbatim>\<open>VARCHAR\<close> column would refuse counts, like a lost connection, among the
    faults that the environment decides.
\<close>

subsection \<open>Numbers\<close>

type_synonym float64 = rat

definition go_int :: "float64 \<Rightarrow> int" where
  \<comment> \<open>Go's conversion \<^verbatim>\<open>int(x)\<close>: the fraction is discarded (truncation towards
      zero); what does not fit 64 bits comes out as \<open>- 2 ^ 63\<close>, as on amd64.\<close>
  "go_int x =
     (let t = (if 0 \<le> x then \<lfloor>x\<rfloor> else \<lceil>x\<rceil>)
      in if - (2 ^ 63) \<le> t \<and> t < 2 ^ 63 then t else - (2 ^ 63))"

function multiplier_loop :: "int \<Rightarrow> int \<Rightarrow> float64 \<Rightarrow> float64" where
  \<comment> \<open>\<^verbatim>\<open>for i := 0; i < decimals; i++ { multiplier *= 10 }\<close>\<close>
  "multiplier_loop i decimals multiplier =
     (if i < decimals then multiplier_loop (i + 1) decimals (multiplier * 10) else multiplier)"
  by pat_completeness auto
termination
  by (relation "measure (\<lambda>(i, decimals, m). nat (decimals - i))") auto

declare multiplier_loop.simps [simp del]

definition roundToDecimal :: "float64 \<Rightarrow> int \<Rightarrow> float64" where
  "roundToDecimal v decimals =
     (let multiplier = multiplier_loop 0 decimals 1
      in of_int (go_int (v * multiplier + 1 / 2)) / multiplier)"

subsection \<open>Fees\<close>

record FeesConfig =
  BrokerageFeeBC :: int
  STTFeeBC :: int
  GSTFeeBC :: int
  ExchangeFeeBC :: int
  SEBIFeeBC :: int

record Fees =
  Brokerage :: float64
  STT :: float64
  GST :: float64
  Exchange :: float64
  SEBI :: float64
  Total :: float64

definition calculateFees :: "FeesConfig \<Rightarrow> float64 \<Rightarrow> Fees" where
  "calculateFees feesConfig totalValue =
     (let brokerage = totalValue * of_int (BrokerageFeeBC feesConfig) / 10000;
          stt = totalValue * of_int (STTFeeBC feesConfig) / 10000;
          exchange = totalValue * of_int (ExchangeFeeBC feesConfig) / 10000;
          sebi = totalValue * of_int (SEBIFeeBC feesConfig) / 10000;
          gst = brokerage * of_int (GSTFeeBC feesConfig) / 100;
          total = brokerage + stt + gst + exchange + sebi
      in \<lparr>Brokerage = roundToDecimal brokerage 4,
          STT = roundToDecimal stt 4,
          GST = roundToDecimal gst 4,
          Exchange = roundToDecimal exchange 4,
          SEBI = roundToDecimal sebi 4,
          Total = roundToDecimal total 4\<rparr>)"

definition default_fees :: FeesConfig where
  \<comment> \<open>The defaults of \<^verbatim>\<open>config.Load\<close>: 5, 25, 18, 3 and 1.\<close>
  "default_fees =
     \<lparr>BrokerageFeeBC = 5, STTFeeBC = 25, GSTFeeBC = 18, ExchangeFeeBC = 3, SEBIFeeBC = 1\<rparr>"

subsection \<open>Formatted text, errors and the log\<close>

text \<open>
  A string built by \<^verbatim>\<open>fmt.Sprintf\<close>, \<^verbatim>\<open>fmt.Errorf\<close> or a logger's
  \<^verbatim>\<open>Infof\<close>/\<^verbatim>\<open>Errorf\<close> is kept as its format and its arguments. An error of
  the database is a fault of the driver or the server (\<open>Driver\<close>), or the violation of
  a named constraint of the schema.
\<close>

datatype arg = S string | I int | F float64 | E error
and error =
    Errorf string "arg list"
  | Driver string
  | UniqueViolation string
  | CheckViolation string
  | ForeignKeyViolation string
  | ValidationErrors "(string \<times> string) list"
  | NilDereference

datatype formatted = Sprintf string "arg list"

datatype log_entry = LogInfo string "arg list" | LogError string "arg list"

type_synonym timestamp = int

subsection \<open>Models (\<^verbatim>\<open>internal/models/models.go\<close>)\<close>

record Stock =
  ID :: int
  Symbol :: string
  CompanyName :: string
  Exchange :: string
  IsActive :: bool
  CreatedAt :: timestamp
  UpdatedAt :: timestamp

record RewardEvent =
  ID :: int
  IdempotencyKey :: string
  UserID :: string
  StockSymbol :: string
  SharesQuantity :: float64
  PricePerShare :: float64
  TotalValue :: float64
  BrokerageFee :: float64
  STTFee :: float64
  GSTFee :: float64
  ExchangeFee :: float64
  SEBIFee :: float64
  TotalFees :: float64
  TotalCost :: float64
  Reason :: string
  Metadata :: "string option"
  RewardedAt :: timestamp
  CreatedAt :: timestamp

record UserHolding =
  ID :: int
  UserID :: string
  StockSymbol :: string
  TotalShares :: float64
  AveragePrice :: float64
  LastUpdated :: timestamp

record StockPrice =
  ID :: int
  StockSymbol :: string
  Price :: float64
  Timestamp :: timestamp
  Source :: string

record LedgerEntry =
  ID :: int
  EntryGroupID :: formatted
  RewardEventID :: "int option"
  AccountType :: string
  StockSymbol :: "string option"
  DebitAmount :: float64
  CreditAmount :: float64
  Description :: formatted
  CreatedAt :: timestamp

record PortfolioItem =
  StockSymbol :: string
  CompanyName :: string
  TotalShares :: float64
  AveragePrice :: float64
  CurrentPrice :: float64
  CurrentValue :: float64
  TotalCost :: float64
  ProfitLoss :: float64
  ProfitLossPct :: float64

record RewardRequest =
  IdempotencyKey :: string
  UserID :: string
  StockSymbol :: string
  SharesQuantity :: float64
  Reason :: string
  Metadata :: string
  RewardedAt :: timestamp

subsection \<open>The store and its environment\<close>

record db =
  stocks :: "Stock list"
  reward_events :: "RewardEvent list"
  reward_events_id_seq :: int
  user_holdings :: "UserHolding list"
  user_holdings_id_seq :: int
  stock_prices :: "StockPrice list"
  ledger_entries :: "LedgerEntry list"
  ledger_entries_id_seq :: int

datatype stmt =
    SelectRewardByKey
  | InsertReward
  | SelectHolding
  | UpsertHolding
  | SelectPortfolio
  | SelectStock
  | SelectLatestPrice
  | SelectLatestPrices
  | InsertLedger

text \<open>
  What a request cannot decide itself: the clock (\<^verbatim>\<open>time.Now()\<close> and the server's
  \<^verbatim>\<open>NOW()\<close>, read as one instant per request), the statements that fail for a
  reason outside the tables (\<open>fault\<close>), and what other requests commit between this
  request's idempotency lookup and its insert (\<open>concurrent\<close>).
\<close>

record env =
  now :: timestamp
  fault :: "stmt \<Rightarrow> error option"
  concurrent :: "db \<Rightarrow> db"

subsection \<open>Repository (\<^verbatim>\<open>package repository\<close>)\<close>

definition GetRewardEventByIdempotencyKey ::
  "env \<Rightarrow> db \<Rightarrow> string \<Rightarrow> error + RewardEvent option" where
  "GetRewardEventByIdempotencyKey e d key =
     (case fault e SelectRewardByKey of
        Some err \<Rightarrow> Inl err
      | None \<Rightarrow> Inr (find (\<lambda>r. RewardEvent.IdempotencyKey r = key) (reward_events d)))"

definition CreateRewardEvent ::
  "env \<Rightarrow> db \<Rightarrow> RewardEvent \<Rightarrow> (error + RewardEvent) \<times> db" where
  \<comment> \<open>\<^verbatim>\<open>INSERT INTO reward_events ... RETURNING id, created_at\<close>. The key is drawn
      from the sequence before the constraints are checked, so a refused row uses one up.\<close>
  "CreateRewardEvent e d event =
     (case fault e InsertReward of
        Some err \<Rightarrow> (Inl err, d)
      | None \<Rightarrow>
          (let newid = reward_events_id_seq d + 1;
               d1 = d\<lparr>reward_events_id_seq := newid\<rparr>
           in if \<not> 0 < RewardEvent.SharesQuantity event
              then (Inl (CheckViolation ''reward_events_shares_quantity_check''), d1)
              else if \<not> 0 < PricePerShare event
              then (Inl (CheckViolation ''reward_events_price_per_share_check''), d1)
              else if \<exists>r \<in> set (reward_events d).
                        RewardEvent.IdempotencyKey r = RewardEvent.IdempotencyKey event
              then (Inl (UniqueViolation ''reward_events_idempotency_key_key''), d1)
              else (let row = event\<lparr>RewardEvent.ID := newid, RewardEvent.CreatedAt := now e\<rparr>
                    in (Inr row, d1\<lparr>reward_events := reward_events d @ [row]\<rparr>))))"

definition GetUserHolding ::
  "env \<Rightarrow> db \<Rightarrow> string \<Rightarrow> string \<Rightarrow> error + UserHolding option" where
  "GetUserHolding e d userID stockSymbol =
     (case fault e SelectHolding of
        Some err \<Rightarrow> Inl err
      | None \<Rightarrow>
          Inr (find (\<lambda>h. UserHolding.UserID h = userID \<and> UserHolding.StockSymbol h = stockSymbol)
                 (user_holdings d)))"

definition same_holding :: "UserHolding \<Rightarrow> UserHolding \<Rightarrow> bool" where
  \<comment> \<open>The conflict target \<^verbatim>\<open>(user_id, stock_symbol)\<close>.\<close>
  "same_holding h r =
     (UserHolding.UserID r = UserHolding.UserID h \<and>
      UserHolding.StockSymbol r = UserHolding.StockSymbol h)"

definition UpsertUserHolding :: "env \<Rightarrow> db \<Rightarrow> UserHolding \<Rightarrow> error option \<times> db" where
  \<comment> \<open>\<^verbatim>\<open>INSERT INTO user_holdings ... ON CONFLICT (user_id, stock_symbol) DO UPDATE\<close>
      on a table with \<^verbatim>\<open>CHECK (total_shares >= 0)\<close>.\<close>
  "UpsertUserHolding e d holding =
     (case fault e UpsertHolding of
        Some err \<Rightarrow> (Some err, d)
      | None \<Rightarrow>
          (let newid = user_holdings_id_seq d + 1;
               d1 = d\<lparr>user_holdings_id_seq := newid\<rparr>
           in if \<not> 0 \<le> UserHolding.TotalShares holding
              then (Some (CheckViolation ''user_holdings_total_shares_check''), d1)
              else if \<exists>r \<in> set (user_holdings d). same_holding holding r
              then (None, d1\<lparr>user_holdings :=
                      map (\<lambda>r. if same_holding holding r
                                then r\<lparr>UserHolding.TotalShares := UserHolding.TotalShares holding,
                                       UserHolding.AveragePrice := UserHolding.AveragePrice holding,
                                       LastUpdated := LastUpdated holding\<rparr>
                                else r)
                        (user_holdings d)\<rparr>)
              else (None, d1\<lparr>user_holdings :=
                      user_holdings d @ [holding\<lparr>UserHolding.ID := newid\<rparr>]\<rparr>)))"

definition GetUserPortfolio_repo :: "env \<Rightarrow> db \<Rightarrow> string \<Rightarrow> error + UserHolding list" where
  \<comment> \<open>\<^verbatim>\<open>WHERE user_id = $1 AND total_shares > 0 ORDER BY stock_symbol\<close>, the symbols
      compared byte by byte.\<close>
  "GetUserPortfolio_repo e d userID =
     (case fault e SelectPortfolio of
        Some err \<Rightarrow> Inl err
      | None \<Rightarrow>
          Inr (sort_key UserHolding.StockSymbol
                 (filter (\<lambda>h. UserHolding.UserID h = userID \<and> 0 < UserHolding.TotalShares h)
                    (user_holdings d))))"

definition zero_Stock :: Stock where
  "zero_Stock = \<lparr>Stock.ID = 0, Symbol = [], Stock.CompanyName = [], Exchange = [],
     IsActive = False, Stock.CreatedAt = 0, UpdatedAt = 0\<rparr>"

definition GetStockBySymbol :: "env \<Rightarrow> db \<Rightarrow> string \<Rightarrow> Stock option \<times> error option" where
  \<comment> \<open>The Go pair \<^verbatim>\<open>(*models.Stock, error)\<close>: no row gives \<^verbatim>\<open>nil\<close> and an error,
      any other failure gives the empty struct together with the error.\<close>
  "GetStockBySymbol e d symbol =
     (case fault e SelectStock of
        Some err \<Rightarrow> (Some zero_Stock, Some err)
      | None \<Rightarrow>
          (case find (\<lambda>s. Symbol s = symbol) (stocks d) of
             None \<Rightarrow> (None, Some (Errorf ''stock not found: %s'' [S symbol]))
           | Some stock \<Rightarrow> (Some stock, None)))"

fun latest :: "StockPrice list \<Rightarrow> StockPrice option" where
  \<comment> \<open>\<^verbatim>\<open>ORDER BY timestamp DESC LIMIT 1\<close>\<close>
  "latest [] = None"
| "latest (p # ps) =
     (case latest ps of
        None \<Rightarrow> Some p
      | Some q \<Rightarrow> if Timestamp q > Timestamp p then Some q else Some p)"

definition GetLatestStockPrice :: "env \<Rightarrow> db \<Rightarrow> string \<Rightarrow> error + StockPrice" where
  "GetLatestStockPrice e d symbol =
     (case fault e SelectLatestPrice of
        Some err \<Rightarrow> Inl err
      | None \<Rightarrow>
          (case latest (filter (\<lambda>p. StockPrice.StockSymbol p = symbol) (stock_prices d)) of
             None \<Rightarrow> Inl (Errorf ''no price found for stock: %s'' [S symbol])
           | Some p \<Rightarrow> Inr p))"

definition GetLatestStockPrices :: "env \<Rightarrow> db \<Rightarrow> error + (string \<rightharpoonup> float64)" where
  \<comment> \<open>\<^verbatim>\<open>SELECT DISTINCT ON (stock_symbol) stock_symbol, price ... ORDER BY stock_symbol,
      timestamp DESC\<close>, read into a Go map.\<close>
  "GetLatestStockPrices e d =
     (case fault e SelectLatestPrices of
        Some err \<Rightarrow> Inl err
      | None \<Rightarrow>
          Inr (\<lambda>symbol. map_option Price
                 (latest (filter (\<lambda>p. StockPrice.StockSymbol p = symbol) (stock_prices d)))))"

definition ledger_check :: "LedgerEntry \<Rightarrow> bool" where
  \<comment> \<open>The \<^verbatim>\<open>CHECK\<close> of \<^verbatim>\<open>ledger_entries\<close>.\<close>
  "ledger_check entry =
     ((0 < DebitAmount entry \<and> CreditAmount entry = 0) \<or>
      (0 < CreditAmount entry \<and> DebitAmount entry = 0))"

fun insert_ledger_rows ::
  "timestamp \<Rightarrow> int list \<Rightarrow> LedgerEntry list \<Rightarrow> LedgerEntry list \<times> int \<Rightarrow>
   error option \<times> LedgerEntry list \<times> int" where
  \<comment> \<open>The loop of \<^verbatim>\<open>tx.Exec\<close> calls, over the rows and the sequence; it stops at the
      first refused row.\<close>
  "insert_ledger_rows t ids [] (rows, seq) = (None, rows, seq)"
| "insert_ledger_rows t ids (entry # entries) (rows, seq) =
     (let newid = seq + 1
      in if \<not> ledger_check entry
         then (Some (CheckViolation ''ledger_entries_check''), rows, newid)
         else if (case RewardEventID entry of None \<Rightarrow> False | Some i \<Rightarrow> i \<notin> set ids)
         then (Some (ForeignKeyViolation ''ledger_entries_reward_event_id_fkey''), rows, newid)
         else insert_ledger_rows t ids entries
                (rows @ [entry\<lparr>LedgerEntry.ID := newid, LedgerEntry.CreatedAt := t\<rparr>], newid))"

definition CreateLedgerEntries :: "env \<Rightarrow> db \<Rightarrow> LedgerEntry list \<Rightarrow> error option \<times> db" where
  \<comment> \<open>One transaction: every row or none (\<^verbatim>\<open>defer tx.Rollback()\<close>); the sequence
      is not rolled back.\<close>
  "CreateLedgerEntries e d entries =
     (case fault e InsertLedger of
        Some err \<Rightarrow> (Some err, d)
      | None \<Rightarrow>
          (case insert_ledger_rows (now e) (map RewardEvent.ID (reward_events d)) entries
                  (ledger_entries d, ledger_entries_id_seq d) of
             (Some err, rows, seq) \<Rightarrow> (Some err, d\<lparr>ledger_entries_id_seq := seq\<rparr>)
           | (None, rows, seq) \<Rightarrow>
               (None, d\<lparr>ledger_entries := rows, ledger_entries_id_seq := seq\<rparr>)))"

subsection \<open>Price service (\<^verbatim>\<open>stockPriceService\<close>)\<close>

definition GetCurrentPrice :: "env \<Rightarrow> db \<Rightarrow> string \<Rightarrow> error + float64" where
  "GetCurrentPrice e d symbol =
     (case GetLatestStockPrice e d symbol of
        Inl err \<Rightarrow> Inl err
      | Inr price \<Rightarrow> Inr (Price price))"

definition GetAllCurrentPrices :: "env \<Rightarrow> db \<Rightarrow> error + (string \<rightharpoonup> float64)" where
  "GetAllCurrentPrices e d = GetLatestStockPrices e d"

subsection \<open>Reward service (\<^verbatim>\<open>rewardService\<close>)\<close>

definition updateUserHoldings :: "env \<Rightarrow> db \<Rightarrow> RewardEvent \<Rightarrow> error option \<times> db" where
  \<comment> \<open>In the second branch the source divides by the new total; where that is \<open>0\<close> a
      \<^verbatim>\<open>float64\<close> quotient is \<^verbatim>\<open>\<plusminus>Inf\<close> or \<^verbatim>\<open>NaN\<close>, which this model does not
      hold (the quotient of HOL is \<open>0\<close> there).\<close>
  "updateUserHoldings e d event =
     (case GetUserHolding e d (RewardEvent.UserID event) (RewardEvent.StockSymbol event) of
        Inl err \<Rightarrow> (Some err, d)
      | Inr None \<Rightarrow>
          UpsertUserHolding e d
            \<lparr>UserHolding.ID = 0,
             UserHolding.UserID = RewardEvent.UserID event,
             UserHolding.StockSymbol = RewardEvent.StockSymbol event,
             UserHolding.TotalShares = RewardEvent.SharesQuantity event,
             UserHolding.AveragePrice = PricePerShare event,
             LastUpdated = now e\<rparr>
      | Inr (Some holding) \<Rightarrow>
          (let totalCost = UserHolding.TotalShares holding * UserHolding.AveragePrice holding
                 + RewardEvent.SharesQuantity event * PricePerShare event;
               shares = UserHolding.TotalShares holding + RewardEvent.SharesQuantity event
           in UpsertUserHolding e d
                (holding\<lparr>UserHolding.TotalShares := shares,
                         UserHolding.AveragePrice := totalCost / shares,
                         LastUpdated := now e\<rparr>)))"

definition entryGroupID :: "RewardEvent \<Rightarrow> formatted" where
  "entryGroupID event = Sprintf ''reward-%d'' [I (RewardEvent.ID event)]"

definition entries :: "RewardEvent \<Rightarrow> LedgerEntry list" where
  \<comment> \<open>The slice \<^verbatim>\<open>entries\<close> that \<^verbatim>\<open>createLedgerEntries\<close> builds.\<close>
  "entries event =
     [\<lparr>LedgerEntry.ID = 0,
       EntryGroupID = entryGroupID event,
       RewardEventID = Some (RewardEvent.ID event),
       AccountType = ''stock_inventory'',
       LedgerEntry.StockSymbol = Some (RewardEvent.StockSymbol event),
       DebitAmount = TotalValue event,
       CreditAmount = 0,
       Description = Sprintf ''Stock reward: %s x %.6f shares to user %s''
         [S (RewardEvent.StockSymbol event), F (RewardEvent.SharesQuantity event),
          S (RewardEvent.UserID event)],
       LedgerEntry.CreatedAt = 0\<rparr>,
      \<lparr>LedgerEntry.ID = 0,
       EntryGroupID = entryGroupID event,
       RewardEventID = Some (RewardEvent.ID event),
       AccountType = ''cash_outflow'',
       LedgerEntry.StockSymbol = None,
       DebitAmount = 0,
       CreditAmount = TotalValue event,
       Description = Sprintf ''Cash paid for stock purchase'' [],
       LedgerEntry.CreatedAt = 0\<rparr>,
      \<lparr>LedgerEntry.ID = 0,
       EntryGroupID = entryGroupID event,
       RewardEventID = Some (RewardEvent.ID event),
       AccountType = ''fees_expense'',
       LedgerEntry.StockSymbol = None,
       DebitAmount = TotalFees event,
       CreditAmount = 0,
       Description = Sprintf ''Fees: brokerage=%.2f, STT=%.2f, GST=%.2f, exchange=%.2f, SEBI=%.2f''
         [F (BrokerageFee event), F (STTFee event), F (GSTFee event), F (ExchangeFee event),
          F (SEBIFee event)],
       LedgerEntry.CreatedAt = 0\<rparr>,
      \<lparr>LedgerEntry.ID = 0,
       EntryGroupID = entryGroupID event,
       RewardEventID = Some (RewardEvent.ID event),
       AccountType = ''cash_outflow'',
       LedgerEntry.StockSymbol = None,
       DebitAmount = 0,
       CreditAmount = TotalFees event,
       Description = Sprintf ''Cash paid for transaction fees'' [],
       LedgerEntry.CreatedAt = 0\<rparr>]"

definition createLedgerEntries :: "env \<Rightarrow> db \<Rightarrow> RewardEvent \<Rightarrow> error option \<times> db" where
  "createLedgerEntries e d event = CreateLedgerEntries e d (entries event)"

definition newRewardEvent :: "FeesConfig \<Rightarrow> env \<Rightarrow> RewardRequest \<Rightarrow> float64 \<Rightarrow> RewardEvent" where
  \<comment> \<open>The struct that \<^verbatim>\<open>CreateReward\<close> fills in from the request and the price.\<close>
  "newRewardEvent feesConfig e req currentPrice =
     (let totalValue = RewardRequest.SharesQuantity req * currentPrice;
          fees = calculateFees feesConfig totalValue;
          rewardedAt = (if RewardRequest.RewardedAt req = 0 then now e
                        else RewardRequest.RewardedAt req)
      in \<lparr>RewardEvent.ID = 0,
          RewardEvent.IdempotencyKey = RewardRequest.IdempotencyKey req,
          RewardEvent.UserID = RewardRequest.UserID req,
          RewardEvent.StockSymbol = RewardRequest.StockSymbol req,
          RewardEvent.SharesQuantity = RewardRequest.SharesQuantity req,
          PricePerShare = currentPrice,
          TotalValue = totalValue,
          BrokerageFee = Brokerage fees,
          STTFee = STT fees,
          GSTFee = GST fees,
          ExchangeFee = Fees.Exchange fees,
          SEBIFee = SEBI fees,
          TotalFees = Total fees,
          RewardEvent.TotalCost = totalValue + Total fees,
          RewardEvent.Reason = RewardRequest.Reason req,
          RewardEvent.Metadata = (if RewardRequest.Metadata req \<noteq> []
                                  then Some (RewardRequest.Metadata req) else None),
          RewardEvent.RewardedAt = rewardedAt,
          RewardEvent.CreatedAt = 0\<rparr>)"

type_synonym state = "db \<times> log_entry list"

definition log_failure :: "string \<Rightarrow> error option \<Rightarrow> log_entry list" where
  \<comment> \<open>\<^verbatim>\<open>if err != nil { s.log.Errorf(format, err) }\<close>\<close>
  "log_failure format r = (case r of None \<Rightarrow> [] | Some err \<Rightarrow> [LogError format [E err]])"

definition persisted :: "env \<Rightarrow> RewardEvent \<Rightarrow> state \<Rightarrow> (error + RewardEvent) \<times> state" where
  \<comment> \<open>\<^verbatim>\<open>CreateReward\<close> from the comment \<^verbatim>\<open>// Update user holdings\<close> to its end.\<close>
  "persisted e event st =
     (case st of (d, lg) \<Rightarrow>
        (case updateUserHoldings e d event of (r1, d1) \<Rightarrow>
           (case createLedgerEntries e d1 event of (r2, d2) \<Rightarrow>
              (Inr event,
               (d2, lg @ log_failure ''Failed to update user holdings: %v'' r1
                       @ log_failure ''Failed to create ledger entries: %v'' r2
                       @ [LogInfo ''Reward created: user=%s, stock=%s, shares=%.6f, price=%.2f, total_cost=%.2f''
                            [S (RewardEvent.UserID event), S (RewardEvent.StockSymbol event),
                             F (RewardEvent.SharesQuantity event), F (PricePerShare event),
                             F (RewardEvent.TotalCost event)]])))))"

definition CreateReward ::
  "FeesConfig \<Rightarrow> env \<Rightarrow> RewardRequest \<Rightarrow> state \<Rightarrow> (error + RewardEvent) \<times> state" where
  "CreateReward feesConfig e req st =
     (case st of (d, lg) \<Rightarrow>
        (case GetRewardEventByIdempotencyKey e d (RewardRequest.IdempotencyKey req) of
           Inl err \<Rightarrow> (Inl (Errorf ''idempotency check failed: %w'' [E err]), st)
         | Inr (Some existingEvent) \<Rightarrow>
             (Inr existingEvent,
              (d, lg @ [LogInfo ''Duplicate reward request detected (key: %s), returning existing event''
                          [S (RewardRequest.IdempotencyKey req)]]))
         | Inr None \<Rightarrow>
             (case GetStockBySymbol e d (RewardRequest.StockSymbol req) of
                (_, Some err) \<Rightarrow> (Inl (Errorf ''invalid stock symbol: %w'' [E err]), st)
              | (None, None) \<Rightarrow> (Inl NilDereference, st)
              | (Some stock, None) \<Rightarrow>
                  if \<not> IsActive stock
                  then (Inl (Errorf ''stock %s is not active (possibly delisted)''
                               [S (RewardRequest.StockSymbol req)]), st)
                  else
                    (case GetCurrentPrice e d (RewardRequest.StockSymbol req) of
                       Inl err \<Rightarrow> (Inl (Errorf ''failed to get stock price: %w'' [E err]), st)
                     | Inr currentPrice \<Rightarrow>
                         (case CreateRewardEvent e (concurrent e d)
                                 (newRewardEvent feesConfig e req currentPrice) of
                            (Inl err, d1) \<Rightarrow>
                              (Inl (Errorf ''failed to create reward event: %w'' [E err]), (d1, lg))
                          | (Inr event, d1) \<Rightarrow> persisted e event (d1, lg))))))"

definition portfolioItem ::
  "env \<Rightarrow> db \<Rightarrow> (string \<rightharpoonup> float64) \<Rightarrow> UserHolding \<Rightarrow> PortfolioItem" where
  \<comment> \<open>The body of the loop of \<^verbatim>\<open>GetUserPortfolio\<close>; a key missing from a Go map reads
      as \<open>0\<close>.\<close>
  "portfolioItem e d prices holding =
     (let price = (case prices (UserHolding.StockSymbol holding) of None \<Rightarrow> 0 | Some p \<Rightarrow> p);
          currentPrice = (if price = 0 then UserHolding.AveragePrice holding else price);
          currentValue = UserHolding.TotalShares holding * currentPrice;
          totalCost = UserHolding.TotalShares holding * UserHolding.AveragePrice holding;
          profitLoss = currentValue - totalCost;
          profitLossPct = (if 0 < totalCost then (profitLoss / totalCost) * 100 else 0);
          companyName = (case fst (GetStockBySymbol e d (UserHolding.StockSymbol holding)) of
                           None \<Rightarrow> UserHolding.StockSymbol holding
                         | Some stock \<Rightarrow> Stock.CompanyName stock)
      in \<lparr>PortfolioItem.StockSymbol = UserHolding.StockSymbol holding,
          PortfolioItem.CompanyName = companyName,
          PortfolioItem.TotalShares = roundToDecimal (UserHolding.TotalShares holding) 6,
          PortfolioItem.AveragePrice = roundToDecimal (UserHolding.AveragePrice holding) 2,
          CurrentPrice = roundToDecimal currentPrice 2,
          CurrentValue = roundToDecimal currentValue 2,
          PortfolioItem.TotalCost = roundToDecimal totalCost 2,
          ProfitLoss = roundToDecimal profitLoss 2,
          ProfitLossPct = roundToDecimal profitLossPct 2\<rparr>)"

definition GetUserPortfolio :: "env \<Rightarrow> db \<Rightarrow> string \<Rightarrow> error + PortfolioItem list" where
  "GetUserPortfolio e d userID =
     (case GetUserPortfolio_repo e d userID of
        Inl err \<Rightarrow> Inl err
      | Inr holdings \<Rightarrow>
          (case GetAllCurrentPrices e d of
             Inl err \<Rightarrow> Inl err
           | Inr prices \<Rightarrow> Inr (map (portfolioItem e d prices) holdings)))"

subsection \<open>Handler (\<^verbatim>\<open>RewardHandler.CreateReward\<close>)\<close>

definition ShouldBindJSON :: "RewardRequest \<Rightarrow> error + RewardRequest" where
  \<comment> \<open>The \<^verbatim>\<open>binding\<close> tags of \<^verbatim>\<open>RewardRequest\<close> on the decoded body, as gin's
      validator (a library outside the repository) documents them: \<^verbatim>\<open>required\<close>
      refuses the zero value of a field, \<^verbatim>\<open>gt=0\<close> a number that is not positive.\<close>
  "ShouldBindJSON body =
     (let errs =
            (if RewardRequest.IdempotencyKey body = [] then [(''IdempotencyKey'', ''required'')] else [])
          @ (if RewardRequest.UserID body = [] then [(''UserID'', ''required'')] else [])
          @ (if RewardRequest.StockSymbol body = [] then [(''StockSymbol'', ''required'')] else [])
          @ (if RewardRequest.SharesQuantity body = 0 then [(''SharesQuantity'', ''required'')]
             else if \<not> 0 < RewardRequest.SharesQuantity body then [(''SharesQuantity'', ''gt'')]
             else [])
      in if errs = [] then Inr body else Inl (ValidationErrors errs))"

datatype body = ErrorBody string error | SuccessBody RewardEvent

datatype response = JSON int body

definition RewardHandler_CreateReward ::
  "FeesConfig \<Rightarrow> env \<Rightarrow> RewardRequest \<Rightarrow> state \<Rightarrow> response \<times> state" where
  "RewardHandler_CreateReward feesConfig e body st =
     (case ShouldBindJSON body of
        Inl err \<Rightarrow>
          (JSON 400 (ErrorBody ''Invalid request'' err),
           (fst st, snd st @ [LogError ''Invalid request body: %v'' [E err]]))
      | Inr req0 \<Rightarrow>
          (let req = (if RewardRequest.RewardedAt req0 = 0
                      then req0\<lparr>RewardRequest.RewardedAt := now e\<rparr> else req0)
           in case CreateReward feesConfig e req st of
                (Inl err, (d, lg)) \<Rightarrow>
                  (JSON 500 (ErrorBody ''Failed to create reward'' err),
                   (d, lg @ [LogError ''Failed to create reward: %v'' [E err]]))
              | (Inr event, st1) \<Rightarrow> (JSON 201 (SuccessBody event), st1)))"

subsection \<open>Notions used by the properties\<close>

definition fractional_digits :: "nat \<Rightarrow> float64 \<Rightarrow> bool" where
  \<comment> \<open>\<open>x\<close> is an integer multiple of \<open>10\<close> to the power \<open>- n\<close>.\<close>
  "fractional_digits n x = (of_int \<lfloor>x * 10 ^ n\<rfloor> = x * 10 ^ n)"

definition stored :: "db \<Rightarrow> RewardEvent list \<times> UserHolding list \<times> LedgerEntry list" where
  \<comment> \<open>The reward records, the holdings and the ledger postings of a database.\<close>
  "stored d = (reward_events d, user_holdings d, ledger_entries d)"

definition position :: "db \<Rightarrow> string \<Rightarrow> string \<Rightarrow> UserHolding option" where
  \<comment> \<open>The row of \<^verbatim>\<open>user_holdings\<close> for a user and a stock, if there is one.\<close>
  "position d userID stockSymbol =
     find (\<lambda>h. UserHolding.UserID h = userID \<and> UserHolding.StockSymbol h = stockSymbol)
       (user_holdings d)"

definition holdings_nonneg :: "db \<Rightarrow> bool" where
  "holdings_nonneg d = list_all (\<lambda>h. 0 \<le> UserHolding.TotalShares h) (user_holdings d)"

fun applyGrants :: "(env \<times> RewardEvent) list \<Rightarrow> db \<Rightarrow> db" where
  \<comment> \<open>\<^verbatim>\<open>updateUserHoldings\<close> for one event after the other, each in its own environment,
      whether the update is accepted or not.\<close>
  "applyGrants [] d = d"
| "applyGrants ((e, event) # rest) d = applyGrants rest (snd (updateUserHoldings e d event))"

definition grant :: "string \<Rightarrow> string \<Rightarrow> float64 \<Rightarrow> float64 \<Rightarrow> RewardEvent" where
  \<comment> \<open>A persisted event for a quantity at a price, the fields the holdings update reads.\<close>
  "grant user symbol quantity price =
     \<lparr>RewardEvent.ID = 1, RewardEvent.IdempotencyKey = ''key'',
      RewardEvent.UserID = user, RewardEvent.StockSymbol = symbol,
      RewardEvent.SharesQuantity = quantity, PricePerShare = price,
      TotalValue = quantity * price,
      BrokerageFee = 0, STTFee = 0, GSTFee = 0, ExchangeFee = 0, SEBIFee = 0, TotalFees = 0,
      RewardEvent.TotalCost = quantity * price,
      RewardEvent.Reason = [], RewardEvent.Metadata = None,
      RewardEvent.RewardedAt = 1700000000, RewardEvent.CreatedAt = 1700000000\<rparr>"

subsection \<open>Sample data\<close>

definition quiet :: env where
  \<comment> \<open>No fault and no concurrent commit.\<close>
  "quiet = \<lparr>now = 1700000000, fault = (\<lambda>_. None), concurrent = (\<lambda>d. d)\<rparr>"

definition seeded_db :: db where
  \<comment> \<open>Two of the stocks the schema inserts, each with one price.\<close>
  "seeded_db =
     \<lparr>stocks =
        [\<lparr>Stock.ID = 2, Symbol = ''TCS'', Stock.CompanyName = ''Tata Consultancy Services Limited'',
          Exchange = ''NSE'', IsActive = True, Stock.CreatedAt = 1, UpdatedAt = 1\<rparr>,
         \<lparr>Stock.ID = 3, Symbol = ''INFY'', Stock.CompanyName = ''Infosys Limited'',
          Exchange = ''NSE'', IsActive = True, Stock.CreatedAt = 1, UpdatedAt = 1\<rparr>],
      reward_events = [],
      reward_events_id_seq = 0,
      user_holdings = [],
      user_holdings_id_seq = 0,
      stock_prices =
        [\<lparr>StockPrice.ID = 1, StockPrice.StockSymbol = ''TCS'', Price = 3500, Timestamp = 10,
          Source = ''mock''\<rparr>,
         \<lparr>StockPrice.ID = 2, StockPrice.StockSymbol = ''INFY'', Price = 1500, Timestamp = 10,
          Source = ''mock''\<rparr>],
      ledger_entries = [],
      ledger_entries_id_seq = 0\<rparr>"

definition request :: "string \<Rightarrow> string \<Rightarrow> string \<Rightarrow> float64 \<Rightarrow> RewardRequest" where
  "request key user symbol quantity =
     \<lparr>RewardRequest.IdempotencyKey = key, RewardRequest.UserID = user,
      RewardRequest.StockSymbol = symbol, RewardRequest.SharesQuantity = quantity,
      RewardRequest.Reason = ''onboarding_bonus'', RewardRequest.Metadata = [],
      RewardRequest.RewardedAt = 0\<rparr>"

definition stored_event :: RewardEvent where
  \<comment> \<open>The record of example 1 of the specification, as the first call leaves it.\<close>
  "stored_event =
     \<lparr>RewardEvent.ID = 1, RewardEvent.IdempotencyKey = ''reward-alice-001'',
      RewardEvent.UserID = ''alice'', RewardEvent.StockSymbol = ''TCS'',
      RewardEvent.SharesQuantity = 5 / 2, PricePerShare = 3500, TotalValue = 8750,
      BrokerageFee = 35 / 8, STTFee = 175 / 8, GSTFee = 63 / 80, ExchangeFee = 21 / 8,
      SEBIFee = 7 / 8, TotalFees = 2443 / 80, RewardEvent.TotalCost = 702443 / 80,
      RewardEvent.Reason = ''onboarding_bonus'', RewardEvent.Metadata = None,
      RewardEvent.RewardedAt = 1700000000, RewardEvent.CreatedAt = 1700000000\<rparr>"


definition racing :: env where
  \<comment> \<open>Another request commits \<open>stored_event\<close> after this request's lookup.\<close>
  "racing = \<lparr>now = 1700000000, fault = (\<lambda>_. None),
     concurrent = (\<lambda>d. d\<lparr>reward_events := reward_events d @ [stored_event],
                          reward_events_id_seq := reward_events_id_seq d + 1\<rparr>)\<rparr>"

definition failing_after_insert :: env where
  \<comment> \<open>The holdings upsert and the ledger insert both fail.\<close>
  "failing_after_insert = \<lparr>now = 1700000000,
     fault = (\<lambda>s. if s = UpsertHolding \<or> s = InsertLedger then Some (Driver ''connection reset'')
                   else None),
     concurrent = (\<lambda>d. d)\<rparr>"

definition dust_event :: RewardEvent where
  \<comment> \<open>One millionth of a share of TCS at 3500, as \<^verbatim>\<open>CreateReward\<close> persists it with the
      default schedule: the fees round to nothing.\<close>
  "dust_event =
     \<lparr>RewardEvent.ID = 1, RewardEvent.IdempotencyKey = ''reward-bob-001'',
      RewardEvent.UserID = ''bob'', RewardEvent.StockSymbol = ''TCS'',
      RewardEvent.SharesQuantity = 1 / 1000000, PricePerShare = 3500, TotalValue = 35 / 10000,
      BrokerageFee = 0, STTFee = 0, GSTFee = 0, ExchangeFee = 0,
      SEBIFee = 0, TotalFees = 0, RewardEvent.TotalCost = 35 / 10000,
      RewardEvent.Reason = ''onboarding_bonus'', RewardEvent.Metadata = None,
      RewardEvent.RewardedAt = 1700000000, RewardEvent.CreatedAt = 1700000000\<rparr>"

definition small_event :: RewardEvent where
  \<comment> \<open>0.0004 shares of INFY at 1500, as \<^verbatim>\<open>CreateReward\<close> persists them with the default
      schedule.\<close>
  "small_event =
     \<lparr>RewardEvent.ID = 1, RewardEvent.IdempotencyKey = ''reward-carol-001'',
      RewardEvent.UserID = ''carol'', RewardEvent.StockSymbol = ''INFY'',
      RewardEvent.SharesQuantity = 4 / 10000, PricePerShare = 1500, TotalValue = 3 / 5,
      BrokerageFee = 3 / 10000, STTFee = 15 / 10000, GSTFee = 1 / 10000, ExchangeFee = 2 / 10000,
      SEBIFee = 1 / 10000, TotalFees = 21 / 10000, RewardEvent.TotalCost = 6021 / 10000,
      RewardEvent.Reason = ''onboarding_bonus'', RewardEvent.Metadata = None,
      RewardEvent.RewardedAt = 1700000000, RewardEvent.CreatedAt = 1700000000\<rparr>"

definition unpriced_db :: db where
  \<comment> \<open>A holding of a stock without any price row.\<close>
  "unpriced_db = seeded_db\<lparr>user_holdings :=
     [\<lparr>UserHolding.ID = 1, UserHolding.UserID = ''alice'', UserHolding.StockSymbol = ''WIPRO'',
       UserHolding.TotalShares = 3 / 2, UserHolding.AveragePrice = 42012345 / 100000,
       LastUpdated = 1700000000\<rparr>]\<rparr>"


definition replay_db :: db where
  \<comment> \<open>\<open>seeded_db\<close> with \<open>stored_event\<close> as its one reward record.\<close>
  "replay_db = seeded_db\<lparr>reward_events := [stored_event], reward_events_id_seq := 1\<rparr>"

definition holding_db :: db where
  \<comment> \<open>\<open>seeded_db\<close> with a position of 5 shares of INFY at 1500.\<close>
  "holding_db = seeded_db\<lparr>user_holdings :=
     [\<lparr>UserHolding.ID = 1, UserHolding.UserID = ''alice'', UserHolding.StockSymbol = ''INFY'',
       UserHolding.TotalShares = 5, UserHolding.AveragePrice = 1500,
       LastUpdated = 1700000000\<rparr>], user_holdings_id_seq := 1\<rparr>"


definition tcs :: Stock where
  "tcs = \<lparr>Stock.ID = 2, Symbol = ''TCS'', Stock.CompanyName = ''Tata Consultancy Services Limited'',
          Exchange = ''NSE'', IsActive = True, Stock.CreatedAt = 1, UpdatedAt = 1\<rparr>"

definition unpriced_item :: PortfolioItem where
  \<comment> \<open>What \<^verbatim>\<open>GetUserPortfolio\<close> returns for the holding of \<open>unpriced_db\<close>.\<close>
  "unpriced_item =
     \<lparr>PortfolioItem.StockSymbol = ''WIPRO'', PortfolioItem.CompanyName = ''WIPRO'',
      PortfolioItem.TotalShares = 3 / 2, PortfolioItem.AveragePrice = 42012 / 100,
      CurrentPrice = 42012 / 100, CurrentValue = 63019 / 100,
      PortfolioItem.TotalCost = 63019 / 100, ProfitLoss = 0, ProfitLossPct = 0\<rparr>"



section \<open>Properties\<close>

subsection \<open>Rounding\<close>

lemma floor_rat_numeral [simp]:
  "\<lfloor>(numeral a / numeral b :: rat)\<rfloor> = numeral a div numeral b"
  using floor_divide_of_int_eq [of "numeral a" "numeral b", where ?'a = rat] by simp

lemma floor_rat_neg_numeral [simp]:
  "\<lfloor>(- (numeral a / numeral b) :: rat)\<rfloor> = - numeral a div numeral b"
  using floor_divide_of_int_eq [of "- numeral a" "numeral b", where ?'a = rat] by simp

lemma ceiling_rat_numeral [simp]:
  "\<lceil>(numeral a / numeral b :: rat)\<rceil> = - (- numeral a div numeral b)"
  using ceiling_divide_eq_div [of "numeral a" "numeral b", where ?'a = rat] by simp

lemma ceiling_rat_neg_numeral [simp]:
  "\<lceil>(- (numeral a / numeral b) :: rat)\<rceil> = - (numeral a div numeral b)"
  using ceiling_divide_eq_div [of "- numeral a" "numeral b", where ?'a = rat] by simp

text \<open>The loop leaves the power of ten in \<open>multiplier\<close>; a count below one leaves \<open>1\<close>.\<close>

lemma multiplier_loop_from: "multiplier_loop i d m = m * 10 ^ nat (d - i)"
proof (induction i d m rule: multiplier_loop.induct)
  case (1 i d m)
  show ?case
  proof (cases "i < d")
    case True
    then have "nat (d - i) = Suc (nat (d - (i + 1)))" by simp
    with 1 True show ?thesis by (subst multiplier_loop.simps) simp
  next
    case False
    then show ?thesis by (subst multiplier_loop.simps) simp
  qed
qed

lemma multiplier_loop_pow: "multiplier_loop 0 d 1 = 10 ^ nat d"
  by (simp add: multiplier_loop_from)

lemma roundToDecimal_eq:
  "roundToDecimal v d = of_int (go_int (v * 10 ^ nat d + 1 / 2)) / 10 ^ nat d"
  by (simp add: roundToDecimal_def multiplier_loop_pow Let_def)

lemma roundToDecimal_digits: "fractional_digits (nat d) (roundToDecimal v d)"
  by (simp add: roundToDecimal_eq fractional_digits_def)

text \<open>
  In this arithmetic, on a value that is not negative and below the 64 bits the function
  rounds to the nearest multiple, a tie going up, and rounding twice is rounding once.
  (In binary floating point a product next to a tie can fall on its other side.)
\<close>

lemma roundToDecimal_nonneg:
  assumes "0 \<le> v" and "v * 10 ^ nat d + 1 / 2 < 2 ^ 63"
  shows "roundToDecimal v d = of_int \<lfloor>v * 10 ^ nat d + 1 / 2\<rfloor> / 10 ^ nat d"
proof -
  let ?x = "v * 10 ^ nat d + 1 / 2"
  have x: "0 \<le> ?x" using assms(1) by simp
  then have "0 \<le> \<lfloor>?x\<rfloor>" by simp
  moreover have "\<lfloor>?x\<rfloor> < 2 ^ 63"
    using assms(2) by (simp add: floor_less_iff)
  ultimately have "go_int ?x = \<lfloor>?x\<rfloor>"
    using x by (simp add: go_int_def Let_def)
  then show ?thesis by (simp add: roundToDecimal_eq)
qed

lemma roundToDecimal_nearest:
  assumes "0 \<le> v" and "v * 10 ^ nat d + 1 / 2 < 2 ^ 63"
  shows "\<bar>roundToDecimal v d - v\<bar> \<le> 1 / (2 * 10 ^ nat d)"
proof -
  define m :: rat where "m = 10 ^ nat d"
  have m: "0 < m" by (simp add: m_def)
  define k where "k = \<lfloor>v * m + 1 / 2\<rfloor>"
  have r: "roundToDecimal v d = of_int k / m"
    using assms by (simp add: roundToDecimal_nonneg k_def m_def)
  have "of_int k \<le> v * m + 1 / 2" "v * m + 1 / 2 < of_int k + 1"
    unfolding k_def by linarith+
  then have "\<bar>of_int k - v * m\<bar> \<le> 1 / 2" by linarith
  then have "\<bar>of_int k - v * m\<bar> / m \<le> (1 / 2) / m"
    using m by (intro divide_right_mono) simp_all
  moreover have "\<bar>of_int k - v * m\<bar> / m = \<bar>of_int k / m - v\<bar>"
  proof -
    have "of_int k / m - v = (of_int k - v * m) / m" using m by (simp add: diff_divide_distrib)
    then show ?thesis using m by (simp add: abs_divide del: of_int_diff)
  qed
  ultimately show ?thesis by (simp add: r m_def)
qed

lemma roundToDecimal_idem_nonneg:
  assumes "0 \<le> v" and "v * 10 ^ nat d + 1 / 2 < 2 ^ 63"
  shows "roundToDecimal (roundToDecimal v d) d = roundToDecimal v d"
proof -
  define m :: rat where "m = 10 ^ nat d"
  have m: "0 < m" by (simp add: m_def)
  define k where "k = \<lfloor>v * m + 1 / 2\<rfloor>"
  have k: "0 \<le> k" using assms(1) m unfolding k_def by simp
  have "k < 2 ^ 63"
    using assms(2) unfolding k_def m_def by (simp add: floor_less_iff)
  then have k63: "(of_int k :: rat) + 1 / 2 < 2 ^ 63"
  proof -
    assume "k < 2 ^ 63"
    then have "k + 1 \<le> 2 ^ 63" by simp
    then have "(of_int (k + 1) :: rat) \<le> of_int (2 ^ 63)" by (simp only: of_int_le_iff)
    then show ?thesis by simp
  qed
  have r: "roundToDecimal v d = of_int k / m"
    using assms by (simp add: roundToDecimal_nonneg k_def m_def)
  have km: "(of_int k / m) * m = (of_int k :: rat)" using m by simp
  have "0 \<le> (of_int k / m :: rat)" using k m by simp
  moreover have "(of_int k / m) * 10 ^ nat d + 1 / 2 < (2 ^ 63 :: rat)"
    using k63 km by (simp add: m_def)
  ultimately have
    "roundToDecimal (of_int k / m) d = of_int \<lfloor>(of_int k / m) * m + 1 / 2\<rfloor> / m"
    by (simp add: roundToDecimal_nonneg m_def)
  also have "(of_int k / m) * m + 1 / 2 = (of_int k + 1 / 2 :: rat)" using km by simp
  also have "\<lfloor>(of_int k + 1 / 2 :: rat)\<rfloor> = k" by linarith
  finally show ?thesis by (simp add: r)
qed

text \<open>
  Claim C9: for every value, \<^verbatim>\<open>roundToDecimal\<close> at 4 fractional digits rounds half
  away from zero and leaves an already rounded value unchanged. The code adds one half
  and truncates towards zero, which is that rounding only from zero upwards: the value
  \<open>-1\<close>, which has no fractional digit at all, comes back as \<open>-0.9999\<close>, and rounding
  the result again gives \<open>-0.9998\<close>.
\<close>

theorem roundToDecimal_negative:
  "roundToDecimal (- 1) 4 = - (9999 / 10000) \<and>
   roundToDecimal (roundToDecimal (- 1) 4) 4 = - (9998 / 10000)"
  by (simp add: roundToDecimal_eq go_int_def)

subsection \<open>Fees\<close>

lemma calculateFees_sample:
  "calculateFees default_fees (3 / 5) =
     \<lparr>Brokerage = 3 / 10000, STT = 15 / 10000, GST = 1 / 10000,
      Exchange = 2 / 10000, SEBI = 1 / 10000, Total = 21 / 10000\<rparr>"
  by (simp add: calculateFees_def default_fees_def roundToDecimal_eq go_int_def)

lemma small_reward:
  "fst (CreateReward default_fees quiet (request ''reward-carol-001'' ''carol'' ''INFY'' (4 / 10000))
          (seeded_db, [])) = Inr small_event"
  by code_simp

text \<open>
  Claim C2: every component of the breakdown is its rate applied to the gross value and
  rounded to 4 digits, and the total is the sum of the five rounded components, rounded.
  The code adds the five amounts before it rounds them and rounds that sum, so the total
  it stores need not be the sum of the fees it stores. For a gross value of \<open>0.6\<close>
  (0.0004 shares of INFY at 1500) under the default schedule the fees are 0.0003,
  0.0015, 0.0001, 0.0002 and 0.0001, which add up to 0.0022, and the total is 0.0021;
  none of the six products is near a tie, so binary floating point gives the same
  digits. The components themselves go wrong below zero, by the rounding of claim C9: a
  brokerage of \<open>-0.05\<close> (a rate of \<open>-5\<close> on a gross value of 100) comes back as
  \<open>-0.0499\<close>.
\<close>

theorem calculateFees_total_not_sum:
  "calculateFees default_fees (3 / 5) =
     \<lparr>Brokerage = 3 / 10000, STT = 15 / 10000, GST = 1 / 10000,
      Exchange = 2 / 10000, SEBI = 1 / 10000, Total = 21 / 10000\<rparr> \<and>
   Brokerage (calculateFees default_fees (3 / 5)) + STT (calculateFees default_fees (3 / 5))
     + GST (calculateFees default_fees (3 / 5)) + Fees.Exchange (calculateFees default_fees (3 / 5))
     + SEBI (calculateFees default_fees (3 / 5)) = 22 / 10000 \<and>
   roundToDecimal (22 / 10000) 4 = 22 / 10000 \<and>
   fst (CreateReward default_fees quiet (request ''reward-carol-001'' ''carol'' ''INFY'' (4 / 10000))
          (seeded_db, [])) = Inr small_event \<and>
   TotalValue small_event = 3 / 5 \<and>
   TotalFees small_event = 21 / 10000 \<and>
   BrokerageFee small_event + STTFee small_event + GSTFee small_event + ExchangeFee small_event
     + SEBIFee small_event = 22 / 10000 \<and>
   Brokerage (calculateFees (default_fees\<lparr>BrokerageFeeBC := - 5\<rparr>) 100) = - (499 / 10000)"
proof -
  have sum: "Brokerage (calculateFees default_fees (3 / 5)) + STT (calculateFees default_fees (3 / 5))
     + GST (calculateFees default_fees (3 / 5)) + Fees.Exchange (calculateFees default_fees (3 / 5))
     + SEBI (calculateFees default_fees (3 / 5)) = 22 / 10000"
    by (simp add: calculateFees_sample)
  have again: "roundToDecimal (22 / 10000) 4 = 22 / 10000"
    by (simp add: roundToDecimal_eq go_int_def)
  have stored: "TotalValue small_event = 3 / 5" "TotalFees small_event = 21 / 10000"
    "BrokerageFee small_event + STTFee small_event + GSTFee small_event + ExchangeFee small_event
       + SEBIFee small_event = 22 / 10000"
    by (simp_all add: small_event_def)
  have negative:
    "Brokerage (calculateFees (default_fees\<lparr>BrokerageFeeBC := - 5\<rparr>) 100) = - (499 / 10000)"
    by (simp add: calculateFees_def default_fees_def roundToDecimal_eq go_int_def)
  show ?thesis
    by (intro conjI) (fact calculateFees_sample sum again small_reward stored negative)+
qed

subsection \<open>Idempotent replay\<close>

lemma find_unique:
  assumes "distinct (map f xs)" "x \<in> set xs" "f x = k"
  shows "find (\<lambda>r. f r = k) xs = Some x"
  using assms by (induction xs) force+

text \<open>
  Claim C1: when the idempotency key of a request already has a persisted record,
  \<^verbatim>\<open>CreateReward\<close> returns that record as it is stored and does nothing else. The
  keys of the table are distinct (its \<^verbatim>\<open>UNIQUE\<close> constraint) and the lookup itself
  succeeds; then the result is the stored record, the database after the call is the
  database before it (no record, holding, posting or sequence has changed), and the only
  trace is one line of the log. Nothing is assumed of the stock, the price or the rest of
  the request: none of them is looked at.
\<close>

theorem CreateReward_replay:
  assumes "fault e SelectRewardByKey = None"
    and "distinct (map RewardEvent.IdempotencyKey (reward_events d))"
    and "existing \<in> set (reward_events d)"
    and "RewardEvent.IdempotencyKey existing = RewardRequest.IdempotencyKey req"
  shows "CreateReward c e req (d, lg) =
           (Inr existing,
            (d, lg @ [LogInfo ''Duplicate reward request detected (key: %s), returning existing event''
                        [S (RewardRequest.IdempotencyKey req)]]))"
proof -
  have "GetRewardEventByIdempotencyKey e d (RewardRequest.IdempotencyKey req) = Inr (Some existing)"
    using assms by (simp add: GetRewardEventByIdempotencyKey_def find_unique)
  then show ?thesis by (simp add: CreateReward_def)
qed

text \<open>
  A retry under the key of \<open>stored_event\<close> that names an unknown stock and a negative
  quantity still returns \<open>stored_event\<close> and leaves the database alone.
\<close>

theorem CreateReward_replay_witness:
  "stored_event \<in> set (reward_events replay_db) \<and>
   CreateReward default_fees quiet (request ''reward-alice-001'' ''mallory'' ''DELISTED'' (- 7))
     (replay_db, []) =
   (Inr stored_event,
    (replay_db, [LogInfo ''Duplicate reward request detected (key: %s), returning existing event''
                   [S ''reward-alice-001'']]))"
  using CreateReward_replay
    [of quiet replay_db stored_event "request ''reward-alice-001'' ''mallory'' ''DELISTED'' (- 7)"
        default_fees "[]"]
  by (simp add: quiet_def replay_db_def seeded_db_def stored_event_def request_def)

subsection \<open>Holdings\<close>

lemma find_append_None:
  "find P xs = None \<Longrightarrow> find P (xs @ [y]) = (if P y then Some y else None)"
  by (induction xs) (auto split: if_splits)

lemma find_map_update:
  assumes "\<And>r. P (g r) = P r"
  shows "find P (map (\<lambda>r. if P r then g r else r) xs) = map_option g (find P xs)"
  using assms by (induction xs) auto

lemma find_SomeD: "find P xs = Some x \<Longrightarrow> P x \<and> x \<in> set xs"
  by (induction xs) (auto split: if_splits)

lemma updateUserHoldings_new:
  assumes ok: "updateUserHoldings e d event = (None, d')"
    and none: "position d (RewardEvent.UserID event) (RewardEvent.StockSymbol event) = None"
  shows "\<exists>h. position d' (RewardEvent.UserID event) (RewardEvent.StockSymbol event) = Some h
           \<and> UserHolding.TotalShares h = RewardEvent.SharesQuantity event
           \<and> UserHolding.AveragePrice h = PricePerShare event"
proof -
  let ?P = "\<lambda>h. UserHolding.UserID h = RewardEvent.UserID event
                \<and> UserHolding.StockSymbol h = RewardEvent.StockSymbol event"
  have f: "find ?P (user_holdings d) = None" using none by (simp add: position_def)
  then have nex: "\<not> (\<exists>r \<in> set (user_holdings d). ?P r)"
    by (simp add: find_None_iff)
  from ok f nex show ?thesis
    by (auto simp: updateUserHoldings_def GetUserHolding_def UpsertUserHolding_def Let_def
        same_holding_def position_def find_append_None
        split: option.splits if_splits)
qed

lemma updateUserHoldings_existing:
  assumes ok: "updateUserHoldings e d event = (None, d')"
    and some: "position d (RewardEvent.UserID event) (RewardEvent.StockSymbol event) = Some old"
  shows "\<exists>h. position d' (RewardEvent.UserID event) (RewardEvent.StockSymbol event) = Some h
           \<and> UserHolding.TotalShares h = UserHolding.TotalShares old + RewardEvent.SharesQuantity event
           \<and> UserHolding.AveragePrice h =
               (UserHolding.TotalShares old * UserHolding.AveragePrice old
                + RewardEvent.SharesQuantity event * PricePerShare event)
               / (UserHolding.TotalShares old + RewardEvent.SharesQuantity event)"
proof -
  let ?P = "\<lambda>h. UserHolding.UserID h = RewardEvent.UserID event
                \<and> UserHolding.StockSymbol h = RewardEvent.StockSymbol event"
  let ?s = "UserHolding.TotalShares old + RewardEvent.SharesQuantity event"
  let ?a = "(UserHolding.TotalShares old * UserHolding.AveragePrice old
                + RewardEvent.SharesQuantity event * PricePerShare event) / ?s"
  let ?g = "\<lambda>r. r\<lparr>UserHolding.TotalShares := ?s, UserHolding.AveragePrice := ?a,
                    LastUpdated := now e\<rparr>"
  have f: "find ?P (user_holdings d) = Some old" using some by (simp add: position_def)
  then have old: "?P old" "old \<in> set (user_holdings d)" using find_SomeD [OF f] by simp_all
  have same: "same_holding (?g old) = ?P"
    using old by (auto simp: same_holding_def fun_eq_iff)
  have ex: "\<exists>r \<in> set (user_holdings d). ?P r" using old by blast
  have d': "user_holdings d' = map (\<lambda>r. if ?P r then ?g r else r) (user_holdings d)"
    using ok f ex
    by (auto simp: updateUserHoldings_def GetUserHolding_def UpsertUserHolding_def Let_def same
        split: option.splits if_splits)
  have "find ?P (user_holdings d') = map_option ?g (find ?P (user_holdings d))"
    unfolding d' by (rule find_map_update) simp
  then show ?thesis by (simp add: position_def f)
qed

lemma updateUserHoldings_scenario:
  "map_option (\<lambda>h. (UserHolding.TotalShares h, UserHolding.AveragePrice h))
     (position
        (snd (updateUserHoldings quiet
                (snd (updateUserHoldings quiet seeded_db (grant ''alice'' ''INFY'' 5 1500)))
                (grant ''alice'' ''INFY'' 3 1600)))
        ''alice'' ''INFY'') = Some (8, 3075 / 2)"
  by (simp add: updateUserHoldings_def GetUserHolding_def UpsertUserHolding_def Let_def position_def
     quiet_def seeded_db_def grant_def same_holding_def)

text \<open>
  Claim C3: where \<^verbatim>\<open>updateUserHoldings\<close> succeeds, a pair of user and stock without a
  position gets one with the quantity and the price of the event; an existing position
  gets the sum of the shares and the weighted average of the prices (the new total not
  being zero, where the source's quotient is not a number); and from no position, 5
  units at 1500 and then 3 units at 1600 give 8 shares at an average of 1537.50.
\<close>

theorem updateUserHoldings_weighted_average:
  "(updateUserHoldings e d event = (None, d') \<and>
    position d (RewardEvent.UserID event) (RewardEvent.StockSymbol event) = None \<longrightarrow>
      (\<exists>h. position d' (RewardEvent.UserID event) (RewardEvent.StockSymbol event) = Some h
          \<and> UserHolding.TotalShares h = RewardEvent.SharesQuantity event
          \<and> UserHolding.AveragePrice h = PricePerShare event)) \<and>
   (updateUserHoldings e d event = (None, d') \<and>
    position d (RewardEvent.UserID event) (RewardEvent.StockSymbol event) = Some old \<and>
    UserHolding.TotalShares old + RewardEvent.SharesQuantity event \<noteq> 0 \<longrightarrow>
      (\<exists>h. position d' (RewardEvent.UserID event) (RewardEvent.StockSymbol event) = Some h
          \<and> UserHolding.TotalShares h
              = UserHolding.TotalShares old + RewardEvent.SharesQuantity event
          \<and> UserHolding.AveragePrice h
              = (UserHolding.TotalShares old * UserHolding.AveragePrice old
                 + RewardEvent.SharesQuantity event * PricePerShare event)
                / (UserHolding.TotalShares old + RewardEvent.SharesQuantity event))) \<and>
   map_option (\<lambda>h. (UserHolding.TotalShares h, UserHolding.AveragePrice h))
     (position
        (snd (updateUserHoldings quiet
                (snd (updateUserHoldings quiet seeded_db (grant ''alice'' ''INFY'' 5 1500)))
                (grant ''alice'' ''INFY'' 3 1600)))
        ''alice'' ''INFY'') = Some (8, 3075 / 2)"
  using updateUserHoldings_new [of e d event d'] updateUserHoldings_existing [of e d event d' old]
    updateUserHoldings_scenario
  by blast

lemma first_grant:
  "updateUserHoldings quiet seeded_db (grant ''alice'' ''INFY'' 5 1500) = (None, holding_db)"
  by (simp add: updateUserHoldings_def GetUserHolding_def UpsertUserHolding_def Let_def
     quiet_def seeded_db_def holding_db_def grant_def same_holding_def)

lemma holding_db_position:
  "position holding_db ''alice'' ''INFY'' =
     Some \<lparr>UserHolding.ID = 1, UserHolding.UserID = ''alice'', UserHolding.StockSymbol = ''INFY'',
           UserHolding.TotalShares = 5, UserHolding.AveragePrice = 1500,
           LastUpdated = 1700000000\<rparr>"
  by (simp add: position_def holding_db_def seeded_db_def)

theorem updateUserHoldings_weighted_average_witness:
  "position seeded_db ''alice'' ''INFY'' = None \<and>
   updateUserHoldings quiet seeded_db (grant ''alice'' ''INFY'' 5 1500) = (None, holding_db) \<and>
   (\<exists>h. position holding_db ''alice'' ''INFY'' = Some h \<and> UserHolding.TotalShares h = 5
       \<and> UserHolding.AveragePrice h = 1500) \<and>
   fst (updateUserHoldings quiet holding_db (grant ''alice'' ''INFY'' 3 1600)) = None \<and>
   (\<exists>h. position (snd (updateUserHoldings quiet holding_db (grant ''alice'' ''INFY'' 3 1600)))
            ''alice'' ''INFY'' = Some h
       \<and> UserHolding.TotalShares h = 8 \<and> UserHolding.AveragePrice h = 3075 / 2)"
proof -
  have p0: "position seeded_db ''alice'' ''INFY'' = None"
    by (simp add: position_def seeded_db_def)
  have ok2: "fst (updateUserHoldings quiet holding_db (grant ''alice'' ''INFY'' 3 1600)) = None"
    by (simp add: updateUserHoldings_def GetUserHolding_def UpsertUserHolding_def Let_def
       quiet_def seeded_db_def holding_db_def grant_def same_holding_def)
  then have eq2: "updateUserHoldings quiet holding_db (grant ''alice'' ''INFY'' 3 1600) =
      (None, snd (updateUserHoldings quiet holding_db (grant ''alice'' ''INFY'' 3 1600)))"
    by (metis prod.collapse)
  have a: "\<exists>h. position holding_db ''alice'' ''INFY'' = Some h \<and> UserHolding.TotalShares h = 5
       \<and> UserHolding.AveragePrice h = 1500"
    using updateUserHoldings_weighted_average
      [of quiet seeded_db "grant ''alice'' ''INFY'' 5 1500" holding_db] first_grant p0
    by (simp add: grant_def)
  have b: "\<exists>h. position (snd (updateUserHoldings quiet holding_db (grant ''alice'' ''INFY'' 3 1600)))
            ''alice'' ''INFY'' = Some h
       \<and> UserHolding.TotalShares h = 8 \<and> UserHolding.AveragePrice h = 3075 / 2"
    using updateUserHoldings_weighted_average
      [of quiet holding_db "grant ''alice'' ''INFY'' 3 1600"
          "snd (updateUserHoldings quiet holding_db (grant ''alice'' ''INFY'' 3 1600))"
          "\<lparr>UserHolding.ID = 1, UserHolding.UserID = ''alice'', UserHolding.StockSymbol = ''INFY'',
            UserHolding.TotalShares = 5, UserHolding.AveragePrice = 1500,
            LastUpdated = 1700000000\<rparr>"]
      eq2 holding_db_position
    by (simp add: grant_def)
  from p0 first_grant a ok2 b show ?thesis by blast
qed

lemma UpsertUserHolding_nonneg:
  assumes "holdings_nonneg d"
  shows "holdings_nonneg (snd (UpsertUserHolding e d h))"
  using assms
  by (auto simp: UpsertUserHolding_def holdings_nonneg_def Let_def list_all_iff
      split: option.splits)

lemma updateUserHoldings_nonneg:
  assumes "holdings_nonneg d"
  shows "holdings_nonneg (snd (updateUserHoldings e d event))"
  using assms UpsertUserHolding_nonneg
  by (auto simp: updateUserHoldings_def GetUserHolding_def Let_def split: option.splits sum.splits)

lemma applyGrants_nonneg:
  "holdings_nonneg d \<Longrightarrow> holdings_nonneg (applyGrants grants d)"
  by (induction grants arbitrary: d) (auto simp: updateUserHoldings_nonneg)

lemma updateUserHoldings_rejects:
  assumes "(case position d (RewardEvent.UserID event) (RewardEvent.StockSymbol event) of
              None \<Rightarrow> 0 | Some h \<Rightarrow> UserHolding.TotalShares h)
           + RewardEvent.SharesQuantity event < 0"
  shows "fst (updateUserHoldings e d event) \<noteq> None \<and>
         user_holdings (snd (updateUserHoldings e d event)) = user_holdings d \<and>
         (fault e SelectHolding = None \<and> fault e UpsertHolding = None \<longrightarrow>
            fst (updateUserHoldings e d event)
              = Some (CheckViolation ''user_holdings_total_shares_check''))"
  using assms
  by (auto simp: updateUserHoldings_def GetUserHolding_def UpsertUserHolding_def Let_def position_def
      split: option.splits)

text \<open>
  Claim C5: through the holdings update the shares of a holding never become negative.
  Whatever the events and the environments of a sequence of updates, a table without a
  negative total stays one; and an event whose quantity would take the total of its
  position (nothing, where there is none) below zero is answered by an error, by the
  violation of the \<^verbatim>\<open>CHECK (total_shares >= 0)\<close> of the table where nothing else
  fails, and leaves the holdings as they were.
\<close>

theorem updateUserHoldings_never_negative:
  "(holdings_nonneg d \<longrightarrow> holdings_nonneg (applyGrants grants d)) \<and>
   ((case position d (RewardEvent.UserID event) (RewardEvent.StockSymbol event) of
       None \<Rightarrow> 0 | Some h \<Rightarrow> UserHolding.TotalShares h)
      + RewardEvent.SharesQuantity event < 0 \<longrightarrow>
    fst (updateUserHoldings e d event) \<noteq> None \<and>
    user_holdings (snd (updateUserHoldings e d event)) = user_holdings d \<and>
    (fault e SelectHolding = None \<and> fault e UpsertHolding = None \<longrightarrow>
       fst (updateUserHoldings e d event)
         = Some (CheckViolation ''user_holdings_total_shares_check'')))"
  using applyGrants_nonneg [of d grants] updateUserHoldings_rejects [of d event e]
  by blast

theorem updateUserHoldings_never_negative_witness:
  "holdings_nonneg seeded_db \<and>
   holdings_nonneg (applyGrants
     [(quiet, grant ''alice'' ''INFY'' 5 1500), (quiet, grant ''alice'' ''INFY'' (- 6) 1550),
      (quiet, grant ''alice'' ''INFY'' 3 1600)] seeded_db) \<and>
   fst (updateUserHoldings quiet holding_db (grant ''alice'' ''INFY'' (- 6) 1550))
     = Some (CheckViolation ''user_holdings_total_shares_check'') \<and>
   user_holdings (snd (updateUserHoldings quiet holding_db (grant ''alice'' ''INFY'' (- 6) 1550)))
     = user_holdings holding_db"
proof -
  have h0: "holdings_nonneg seeded_db"
    by (simp add: holdings_nonneg_def seeded_db_def)
  have neg: "(case position holding_db (RewardEvent.UserID (grant ''alice'' ''INFY'' (- 6) 1550))
                  (RewardEvent.StockSymbol (grant ''alice'' ''INFY'' (- 6) 1550)) of
               None \<Rightarrow> 0 | Some h \<Rightarrow> UserHolding.TotalShares h)
             + RewardEvent.SharesQuantity (grant ''alice'' ''INFY'' (- 6) 1550) < 0"
    by (simp add: grant_def holding_db_position)
  have q: "fault quiet SelectHolding = None \<and> fault quiet UpsertHolding = None"
    by (simp add: quiet_def)
  from h0 neg q show ?thesis
    using updateUserHoldings_never_negative
      [of seeded_db
          "[(quiet, grant ''alice'' ''INFY'' 5 1500), (quiet, grant ''alice'' ''INFY'' (- 6) 1550),
            (quiet, grant ''alice'' ''INFY'' 3 1600)]"
          "grant ''alice'' ''INFY'' (- 6) 1550" quiet]
      updateUserHoldings_never_negative
      [of holding_db "[]" "grant ''alice'' ''INFY'' (- 6) 1550" quiet]
    by blast
qed

subsection \<open>Ledger postings\<close>

text \<open>
  What \<^verbatim>\<open>createLedgerEntries\<close> builds for any event: four postings of one group, a
  debit and a credit of the gross value and a debit and a credit of the total fees, so
  that debits and credits balance. The postings pass the \<^verbatim>\<open>CHECK\<close> of the table
  exactly when both amounts are positive.
\<close>

lemma entries_length: "length (entries event) = 4"
  by (simp add: entries_def)

lemma entries_group: "list_all (\<lambda>x. EntryGroupID x = entryGroupID event) (entries event)"
  by (simp add: entries_def)

lemma entries_amounts:
  "map (\<lambda>x. (AccountType x, DebitAmount x, CreditAmount x)) (entries event) =
     [(''stock_inventory'', TotalValue event, 0), (''cash_outflow'', 0, TotalValue event),
      (''fees_expense'', TotalFees event, 0), (''cash_outflow'', 0, TotalFees event)]"
  by (simp add: entries_def)

lemma entries_balanced:
  "sum_list (map DebitAmount (entries event)) = sum_list (map CreditAmount (entries event))"
  by (simp add: entries_def)

lemma entries_check:
  "list_all ledger_check (entries event) \<longleftrightarrow> 0 < TotalValue event \<and> 0 < TotalFees event"
  by (auto simp: entries_def ledger_check_def)

lemma dust_reward:
  "CreateReward default_fees quiet (request ''reward-bob-001'' ''bob'' ''TCS'' (1 / 1000000))
       (seeded_db, []) =
     (Inr dust_event,
      (seeded_db\<lparr>reward_events := [dust_event], reward_events_id_seq := 1,
         user_holdings := [\<lparr>UserHolding.ID = 1, UserHolding.UserID = ''bob'',
            UserHolding.StockSymbol = ''TCS'', UserHolding.TotalShares = 1 / 1000000,
            UserHolding.AveragePrice = 3500, LastUpdated = 1700000000\<rparr>],
         user_holdings_id_seq := 1, ledger_entries_id_seq := 3\<rparr>,
       [LogError ''Failed to create ledger entries: %v''
          [E (CheckViolation ''ledger_entries_check'')],
        LogInfo ''Reward created: user=%s, stock=%s, shares=%.6f, price=%.2f, total_cost=%.2f''
          [S ''bob'', S ''TCS'', F (1 / 1000000), F 3500, F (35 / 10000)]]))"
  by code_simp

text \<open>
  Claim C4: every successfully created reward gets four postings of one group, a pair
  for the gross value and a pair for the total fees, balanced, each posting with exactly
  one of its two amounts strictly positive and the other zero. The last part is what the
  \<^verbatim>\<open>CHECK\<close> of \<^verbatim>\<open>ledger_entries\<close> demands, and the code does not keep it: a
  grant of one millionth of a share of TCS at 3500 is created with total fees of zero,
  its fees postings carry zero on both sides, the table refuses them, and the reward is
  left without any posting.
\<close>

theorem createLedgerEntries_zero_fees:
  "fst (CreateReward default_fees quiet (request ''reward-bob-001'' ''bob'' ''TCS'' (1 / 1000000))
          (seeded_db, [])) = Inr dust_event \<and>
   map (\<lambda>x. (AccountType x, DebitAmount x, CreditAmount x)) (entries dust_event) =
     [(''stock_inventory'', 35 / 10000, 0), (''cash_outflow'', 0, 35 / 10000),
      (''fees_expense'', 0, 0), (''cash_outflow'', 0, 0)] \<and>
   map ledger_check (entries dust_event) = [True, True, False, False] \<and>
   fst (createLedgerEntries quiet replay_db dust_event)
     = Some (CheckViolation ''ledger_entries_check'') \<and>
   ledger_entries (fst (snd (CreateReward default_fees quiet
       (request ''reward-bob-001'' ''bob'' ''TCS'' (1 / 1000000)) (seeded_db, [])))) = []"
proof -
  have "fst (createLedgerEntries quiet replay_db dust_event)
          = Some (CheckViolation ''ledger_entries_check'')"
    by code_simp
  then show ?thesis
    by (simp add: dust_reward entries_amounts)
       (simp add: dust_event_def entries_def ledger_check_def seeded_db_def)
qed

subsection \<open>The insert and what follows it\<close>

lemma CreateReward_reaches_insert:
  assumes "GetRewardEventByIdempotencyKey e d (RewardRequest.IdempotencyKey req) = Inr None"
    and "GetStockBySymbol e d (RewardRequest.StockSymbol req) = (Some stock, None)"
    and "IsActive stock"
    and "GetCurrentPrice e d (RewardRequest.StockSymbol req) = Inr price"
  shows "CreateReward c e req (d, lg) =
           (case CreateRewardEvent e (concurrent e d) (newRewardEvent c e req price) of
              (Inl err, d1) \<Rightarrow>
                (Inl (Errorf ''failed to create reward event: %w'' [E err]), (d1, lg))
            | (Inr event, d1) \<Rightarrow> persisted e event (d1, lg))"
  using assms by (simp add: CreateReward_def)


lemma CreateRewardEvent_accepted:
  assumes "CreateRewardEvent e d event = (Inr row, d1)"
  shows "reward_events d1 = reward_events d @ [row]"
  using assms by (auto simp: CreateRewardEvent_def Let_def split: option.splits if_splits)


text \<open>
  Claim C6: when the insert fails on the uniqueness of the idempotency key, because
  another request with the same key committed after the lookup had found nothing, the
  call fetches the record that now exists and returns it, as a duplicate request would
  get it. The code has no such step: every error of the insert is returned as
  \<^verbatim>\<open>failed to create reward event\<close>. In the run below the lookup of the second
  request finds nothing, the first request commits \<open>stored_event\<close>, a lookup would now
  find it, and the second request gets the error of the insert instead of the record.
\<close>

theorem CreateReward_race_returns_error:
  "GetRewardEventByIdempotencyKey racing seeded_db ''reward-alice-001'' = Inr None \<and>
   GetRewardEventByIdempotencyKey racing (concurrent racing seeded_db) ''reward-alice-001''
     = Inr (Some stored_event) \<and>
   fst (CreateReward default_fees racing (request ''reward-alice-001'' ''alice'' ''TCS'' (5 / 2))
          (seeded_db, [])) =
     Inl (Errorf ''failed to create reward event: %w''
            [E (UniqueViolation ''reward_events_idempotency_key_key'')])"
  by code_simp

lemma persisted_result: "fst (persisted e event st) = Inr event"
  by (simp add: persisted_def split: prod.splits)

lemma UpsertUserHolding_reward_events:
  "reward_events (snd (UpsertUserHolding e d h)) = reward_events d"
  by (auto simp: UpsertUserHolding_def Let_def split: option.splits)

lemma updateUserHoldings_reward_events:
  "reward_events (snd (updateUserHoldings e d event)) = reward_events d"
  by (auto simp: updateUserHoldings_def UpsertUserHolding_reward_events Let_def
      split: option.splits sum.splits)

lemma createLedgerEntries_reward_events:
  "reward_events (snd (createLedgerEntries e d event)) = reward_events d"
  by (auto simp: createLedgerEntries_def CreateLedgerEntries_def split: option.splits prod.splits)

lemma persisted_reward_events:
  "reward_events (fst (snd (persisted e event (d, lg)))) = reward_events d"
proof -
  obtain r1 d1 where u: "updateUserHoldings e d event = (r1, d1)"
    by (cases "updateUserHoldings e d event")
  obtain r2 d2 where l: "createLedgerEntries e d1 event = (r2, d2)"
    by (cases "createLedgerEntries e d1 event")
  have "reward_events d1 = reward_events d"
    using updateUserHoldings_reward_events [of e d event] u by simp
  moreover have "reward_events d2 = reward_events d1"
    using createLedgerEntries_reward_events [of e d1 event] l by simp
  ultimately show ?thesis by (simp add: persisted_def u l)
qed

lemma persisted_log:
  "snd (snd (persisted e event (d, lg))) =
     lg @ log_failure ''Failed to update user holdings: %v'' (fst (updateUserHoldings e d event))
        @ log_failure ''Failed to create ledger entries: %v''
            (fst (createLedgerEntries e (snd (updateUserHoldings e d event)) event))
        @ [LogInfo ''Reward created: user=%s, stock=%s, shares=%.6f, price=%.2f, total_cost=%.2f''
             [S (RewardEvent.UserID event), S (RewardEvent.StockSymbol event),
              F (RewardEvent.SharesQuantity event), F (PricePerShare event),
              F (RewardEvent.TotalCost event)]]"
  by (simp add: persisted_def split: prod.splits)

text \<open>
  Claim C8: once the record is persisted, a failure of the holdings update or of the
  ledger posting does not fail the grant. Whenever the insert has succeeded,
  \<^verbatim>\<open>CreateReward\<close> returns the inserted record as its success, the record is in the table
  afterwards, and every error of the two later steps is in the log.
\<close>

theorem CreateReward_after_persistence:
  assumes "GetRewardEventByIdempotencyKey e d (RewardRequest.IdempotencyKey req) = Inr None"
    and "GetStockBySymbol e d (RewardRequest.StockSymbol req) = (Some stock, None)"
    and "IsActive stock"
    and "GetCurrentPrice e d (RewardRequest.StockSymbol req) = Inr price"
    and "CreateRewardEvent e (concurrent e d) (newRewardEvent c e req price) = (Inr event, d1)"
  shows "fst (CreateReward c e req (d, lg)) = Inr event
         \<and> event \<in> set (reward_events (fst (snd (CreateReward c e req (d, lg)))))
         \<and> (\<forall>err. fst (updateUserHoldings e d1 event) = Some err \<longrightarrow>
               LogError ''Failed to update user holdings: %v'' [E err]
                 \<in> set (snd (snd (CreateReward c e req (d, lg)))))
         \<and> (\<forall>err. fst (createLedgerEntries e (snd (updateUserHoldings e d1 event)) event)
                    = Some err \<longrightarrow>
               LogError ''Failed to create ledger entries: %v'' [E err]
                 \<in> set (snd (snd (CreateReward c e req (d, lg)))))"
proof -
  have eq: "CreateReward c e req (d, lg) = persisted e event (d1, lg)"
    using CreateReward_reaches_insert [OF assms(1-4)] assms(5) by simp
  have "event \<in> set (reward_events d1)"
    using CreateRewardEvent_accepted [OF assms(5)] by simp
  then show ?thesis
    unfolding eq
    by (simp add: persisted_result persisted_reward_events persisted_log log_failure_def)
qed

lemma failing_lookup:
  "GetRewardEventByIdempotencyKey failing_after_insert seeded_db
     (RewardRequest.IdempotencyKey (request ''reward-alice-001'' ''alice'' ''TCS'' (5 / 2)))
     = Inr None"
  by code_simp

lemma failing_stock:
  "GetStockBySymbol failing_after_insert seeded_db
     (RewardRequest.StockSymbol (request ''reward-alice-001'' ''alice'' ''TCS'' (5 / 2)))
     = (Some tcs, None)"
  by code_simp

lemma failing_price:
  "GetCurrentPrice failing_after_insert seeded_db
     (RewardRequest.StockSymbol (request ''reward-alice-001'' ''alice'' ''TCS'' (5 / 2)))
     = Inr 3500"
  by code_simp

lemma failing_insert:
  "CreateRewardEvent failing_after_insert (concurrent failing_after_insert seeded_db)
     (newRewardEvent default_fees failing_after_insert
        (request ''reward-alice-001'' ''alice'' ''TCS'' (5 / 2)) 3500)
     = (Inr stored_event, replay_db)"
  by code_simp

lemma failing_steps:
  "fst (updateUserHoldings failing_after_insert replay_db stored_event)
     = Some (Driver ''connection reset'') \<and>
   fst (createLedgerEntries failing_after_insert
          (snd (updateUserHoldings failing_after_insert replay_db stored_event)) stored_event)
     = Some (Driver ''connection reset'')"
  by code_simp

theorem CreateReward_after_persistence_witness:
  "fst (updateUserHoldings failing_after_insert replay_db stored_event)
     = Some (Driver ''connection reset'') \<and>
   fst (createLedgerEntries failing_after_insert
          (snd (updateUserHoldings failing_after_insert replay_db stored_event)) stored_event)
     = Some (Driver ''connection reset'') \<and>
   fst (CreateReward default_fees failing_after_insert
          (request ''reward-alice-001'' ''alice'' ''TCS'' (5 / 2)) (seeded_db, [])) = Inr stored_event \<and>
   stored_event \<in> set (reward_events (fst (snd (CreateReward default_fees failing_after_insert
          (request ''reward-alice-001'' ''alice'' ''TCS'' (5 / 2)) (seeded_db, []))))) \<and>
   LogError ''Failed to update user holdings: %v'' [E (Driver ''connection reset'')]
     \<in> set (snd (snd (CreateReward default_fees failing_after_insert
          (request ''reward-alice-001'' ''alice'' ''TCS'' (5 / 2)) (seeded_db, [])))) \<and>
   LogError ''Failed to create ledger entries: %v'' [E (Driver ''connection reset'')]
     \<in> set (snd (snd (CreateReward default_fees failing_after_insert
          (request ''reward-alice-001'' ''alice'' ''TCS'' (5 / 2)) (seeded_db, []))))"
proof -
  have active: "IsActive tcs" by (simp add: tcs_def)
  show ?thesis
    using CreateReward_after_persistence
      [OF failing_lookup failing_stock active failing_price failing_insert, of "[]"]
      failing_steps
    by blast
qed

subsection \<open>Input validation\<close>









text \<open>
  The check of the fields is in front of the service: the handler of the endpoint binds
  the body with the \<^verbatim>\<open>binding\<close> tags of \<^verbatim>\<open>RewardRequest\<close> (gin's validator, which is
  not part of the repository and is read here as its tags are documented) and answers
  400 without calling the service.
\<close>

lemma ShouldBindJSON_invalid:
  assumes "RewardRequest.SharesQuantity body \<le> 0 \<or> RewardRequest.UserID body = []
           \<or> RewardRequest.StockSymbol body = [] \<or> RewardRequest.IdempotencyKey body = []"
  shows "\<exists>errs. ShouldBindJSON body = Inl (ValidationErrors errs)"
proof (cases "RewardRequest.SharesQuantity body = 0")
  case True
  then show ?thesis by (simp add: ShouldBindJSON_def)
next
  case False
  with assms show ?thesis by (auto simp: ShouldBindJSON_def)
qed

lemma RewardHandler_CreateReward_invalid:
  assumes "RewardRequest.SharesQuantity body \<le> 0 \<or> RewardRequest.UserID body = []
           \<or> RewardRequest.StockSymbol body = [] \<or> RewardRequest.IdempotencyKey body = []"
  shows "\<exists>errs. RewardHandler_CreateReward c e body (d, lg) =
           (JSON 400 (ErrorBody ''Invalid request'' (ValidationErrors errs)),
            (d, lg @ [LogError ''Invalid request body: %v'' [E (ValidationErrors errs)]]))"
proof -
  obtain errs where "ShouldBindJSON body = Inl (ValidationErrors errs)"
    using ShouldBindJSON_invalid [OF assms] by blast
  then show ?thesis by (simp add: RewardHandler_CreateReward_def)
qed

subsection \<open>Portfolio valuation\<close>

lemma floor_half: "\<lfloor>1 / 2 :: rat\<rfloor> = 0"
  by (rule floor_unique) simp_all

lemma roundToDecimal_zero: "roundToDecimal 0 d = 0"
  by (simp add: roundToDecimal_eq go_int_def floor_half)

lemma portfolioItem_fallback:
  assumes "prices (UserHolding.StockSymbol h) = None \<or> prices (UserHolding.StockSymbol h) = Some 0"
  shows "CurrentPrice (portfolioItem e d prices h) = roundToDecimal (UserHolding.AveragePrice h) 2
       \<and> CurrentPrice (portfolioItem e d prices h)
           = PortfolioItem.AveragePrice (portfolioItem e d prices h)
       \<and> CurrentValue (portfolioItem e d prices h)
           = PortfolioItem.TotalCost (portfolioItem e d prices h)
       \<and> ProfitLoss (portfolioItem e d prices h) = 0
       \<and> ProfitLossPct (portfolioItem e d prices h) = 0"
  using assms by (auto simp: portfolioItem_def Let_def roundToDecimal_zero)

lemma portfolioItem_symbol:
  "PortfolioItem.StockSymbol (portfolioItem e d prices h) = UserHolding.StockSymbol h"
  by (simp add: portfolioItem_def Let_def)

text \<open>
  Claim C10: in \<^verbatim>\<open>GetUserPortfolio\<close>, for a holding whose symbol is missing from the
  map of current prices, or has the price 0 there, the stored average price stands in for
  the current price: the item of the holding has its average price as current price, its
  total cost as current value, and a profit or loss and a percentage of exactly 0. Every
  holding of the user with shares has such an item in the answer, and every item of the
  answer without a price is of this kind.
\<close>

theorem GetUserPortfolio_missing_price:
  assumes "GetUserPortfolio e d userID = Inr items"
    and "GetAllCurrentPrices e d = Inr prices"
  shows "(\<forall>h \<in> set (user_holdings d).
            UserHolding.UserID h = userID \<and> 0 < UserHolding.TotalShares h \<and>
            (prices (UserHolding.StockSymbol h) = None \<or> prices (UserHolding.StockSymbol h) = Some 0)
            \<longrightarrow>
            (\<exists>item \<in> set items.
               PortfolioItem.StockSymbol item = UserHolding.StockSymbol h \<and>
               CurrentPrice item = roundToDecimal (UserHolding.AveragePrice h) 2 \<and>
               CurrentPrice item = PortfolioItem.AveragePrice item \<and>
               CurrentValue item = PortfolioItem.TotalCost item \<and>
               ProfitLoss item = 0 \<and> ProfitLossPct item = 0)) \<and>
         (\<forall>item \<in> set items.
            prices (PortfolioItem.StockSymbol item) = None
            \<or> prices (PortfolioItem.StockSymbol item) = Some 0 \<longrightarrow>
            CurrentPrice item = PortfolioItem.AveragePrice item \<and>
            CurrentValue item = PortfolioItem.TotalCost item \<and>
            ProfitLoss item = 0 \<and> ProfitLossPct item = 0)"
proof -
  from assms obtain holdings where
    hs: "GetUserPortfolio_repo e d userID = Inr holdings"
    and items: "items = map (portfolioItem e d prices) holdings"
    by (auto simp: GetUserPortfolio_def split: sum.splits)
  have set_hs: "set holdings =
      {h \<in> set (user_holdings d). UserHolding.UserID h = userID \<and> 0 < UserHolding.TotalShares h}"
    using hs by (auto simp: GetUserPortfolio_repo_def split: option.splits)
  have a: "\<exists>item \<in> set items.
               PortfolioItem.StockSymbol item = UserHolding.StockSymbol h \<and>
               CurrentPrice item = roundToDecimal (UserHolding.AveragePrice h) 2 \<and>
               CurrentPrice item = PortfolioItem.AveragePrice item \<and>
               CurrentValue item = PortfolioItem.TotalCost item \<and>
               ProfitLoss item = 0 \<and> ProfitLossPct item = 0"
    if h: "h \<in> set (user_holdings d)" "UserHolding.UserID h = userID"
      "0 < UserHolding.TotalShares h"
      "prices (UserHolding.StockSymbol h) = None \<or> prices (UserHolding.StockSymbol h) = Some 0"
    for h
  proof -
    have "portfolioItem e d prices h \<in> set items"
      using h(1-3) set_hs items by simp
    then show ?thesis
      using portfolioItem_fallback [of prices h e d] h(4) portfolioItem_symbol [of e d prices h]
      by (intro bexI [of _ "portfolioItem e d prices h"]) simp_all
  qed
  have b: "CurrentPrice item = PortfolioItem.AveragePrice item \<and>
            CurrentValue item = PortfolioItem.TotalCost item \<and>
            ProfitLoss item = 0 \<and> ProfitLossPct item = 0"
    if i: "item \<in> set items"
      "prices (PortfolioItem.StockSymbol item) = None
       \<or> prices (PortfolioItem.StockSymbol item) = Some 0"
    for item
  proof -
    from i(1) items obtain h where h: "item = portfolioItem e d prices h" by auto
    have "prices (UserHolding.StockSymbol h) = None
          \<or> prices (UserHolding.StockSymbol h) = Some 0"
      using i(2) h by (simp add: portfolioItem_symbol)
    then show ?thesis
      using portfolioItem_fallback [of prices h e d] unfolding h by simp
  qed
  from a b show ?thesis by blast
qed

lemma unpriced_portfolio: "GetUserPortfolio quiet unpriced_db ''alice'' = Inr [unpriced_item]"
  by code_simp

lemma unpriced_prices:
  "GetAllCurrentPrices quiet unpriced_db =
     Inr (\<lambda>symbol. map_option Price
            (latest (filter (\<lambda>p. StockPrice.StockSymbol p = symbol) (stock_prices unpriced_db))))"
  by (simp add: GetAllCurrentPrices_def GetLatestStockPrices_def quiet_def)

text \<open>
  A holding of WIPRO at an average of 420.12345, with no price row for WIPRO: the item
  shows 420.12 as both prices and 630.19 as both values.
\<close>

theorem GetUserPortfolio_missing_price_witness:
  "GetUserPortfolio quiet unpriced_db ''alice'' = Inr [unpriced_item] \<and>
   latest (filter (\<lambda>p. StockPrice.StockSymbol p = ''WIPRO'') (stock_prices unpriced_db)) = None \<and>
   CurrentPrice unpriced_item = roundToDecimal (42012345 / 100000) 2 \<and>
   CurrentPrice unpriced_item = PortfolioItem.AveragePrice unpriced_item \<and>
   CurrentValue unpriced_item = PortfolioItem.TotalCost unpriced_item \<and>
   ProfitLoss unpriced_item = 0 \<and> ProfitLossPct unpriced_item = 0"
proof -
  have none:
    "latest (filter (\<lambda>p. StockPrice.StockSymbol p = ''WIPRO'') (stock_prices unpriced_db)) = None"
    by (simp add: unpriced_db_def seeded_db_def)
  have hs: "user_holdings unpriced_db =
     [\<lparr>UserHolding.ID = 1, UserHolding.UserID = ''alice'', UserHolding.StockSymbol = ''WIPRO'',
       UserHolding.TotalShares = 3 / 2, UserHolding.AveragePrice = 42012345 / 100000,
       LastUpdated = 1700000000\<rparr>]"
    by (simp add: unpriced_db_def)
  show ?thesis
    using GetUserPortfolio_missing_price [OF unpriced_portfolio unpriced_prices]
      unpriced_portfolio none
    by (simp add: hs)
qed

end
